theory Spec2Isabelle
  imports Main
begin

section \<open>JavaScript values\<close>

text \<open>
  The library receives loosely typed values: parsed JSON payloads, class instances and
  pending promises. They are embedded as one datatype. Numbers are the integers and
  \<open>NaN\<close>; fractional and infinite numbers are outside the model. An object is the
  association list of its own properties. \<open>JInst c ps\<close> is an instance of class \<open>c\<close>
  with own properties \<open>ps\<close>. \<open>JPromise r\<close> is a promise that settles with \<open>r\<close>.
  \<open>JFunction\<close> stands for every callable value.
\<close>

datatype error = Error string | UnregisteredKind

datatype number = Num int | NaN

datatype jsval =
    Undefined
  | Null
  | JBool bool
  | JNum number
  | JStr string
  | JArr "jsval list"
  | JObj "(string \<times> jsval) list"
  | JInst string "(string \<times> jsval) list"
  | JFunction
  | JPromise "error + jsval"

text \<open>\<open>!v\<close> is \<open>\<not> truthy v\<close>.\<close>

fun truthy :: "jsval \<Rightarrow> bool" where
  "truthy Undefined = False"
| "truthy Null = False"
| "truthy (JBool b) = b"
| "truthy (JNum n) = (n \<noteq> Num 0 \<and> n \<noteq> NaN)"
| "truthy (JStr s) = (s \<noteq> [])"
| "truthy (JArr xs) = True"
| "truthy (JObj ps) = True"
| "truthy (JInst c ps) = True"
| "truthy JFunction = True"
| "truthy (JPromise r) = True"

fun typeof :: "jsval \<Rightarrow> string" where
  "typeof Undefined = ''undefined''"
| "typeof Null = ''object''"
| "typeof (JBool b) = ''boolean''"
| "typeof (JNum n) = ''number''"
| "typeof (JStr s) = ''string''"
| "typeof (JArr xs) = ''object''"
| "typeof (JObj ps) = ''object''"
| "typeof (JInst c ps) = ''object''"
| "typeof JFunction = ''function''"
| "typeof (JPromise r) = ''object''"

text \<open>
  \<open>js_prop v k\<close> is \<open>v[k]\<close>: the own property of an object, and \<open>undefined\<close> when the
  object has none of that name. Only own properties of objects and instances are
  modelled; the call sites below read properties of truthy values only.
\<close>

fun js_prop :: "jsval \<Rightarrow> string \<Rightarrow> jsval" where
  "js_prop (JObj ps) k = (case map_of ps k of None \<Rightarrow> Undefined | Some v \<Rightarrow> v)"
| "js_prop (JInst c ps) k = (case map_of ps k of None \<Rightarrow> Undefined | Some v \<Rightarrow> v)"
| "js_prop v k = Undefined"

fun instanceOf :: "jsval \<Rightarrow> string \<Rightarrow> bool" where
  "instanceOf (JInst c ps) cls = (c = cls)"
| "instanceOf v cls = False"

text \<open>
  \<open>await v\<close>: a value that is not a promise is returned as it is; a promise yields its
  settled value or its rejection. A promise never fulfils with a promise, so the
  fulfilment value is awaited in turn.
\<close>

fun await :: "jsval \<Rightarrow> error + jsval" where
  "await (JPromise (Inl e)) = Inl e"
| "await (JPromise (Inr v)) = await v"
| "await v = Inr v"

lemma size_map_of:
  "map_of ps k = Some v \<Longrightarrow> size v < Suc (size_list (size_prod (\<lambda>_. 0) size) ps)"
  by (induction ps) (auto split: if_splits)

lemma size_prop: "typeof c = ''object'' \<Longrightarrow> truthy c \<Longrightarrow> size (js_prop c k) < size c"
  by (cases c) (auto split: option.splits dest: size_map_of)

lemma size_await: "await c0 = Inr c \<Longrightarrow> size c \<le> size c0"
  by (induction c0 rule: await.induct) auto

section \<open>The messaging helper\<close>

text \<open>
  \<open>src/corredor/helpers/messaging.ts\<close>. The helper's collaborators are not part of the
  sources at hand and are parameters of the model: the methods of the remote API client
  (each a function from the request to the settled response), and the imported helpers
  \<open>extractID\<close>, \<open>isFresh\<close>, \<open>kv\<close> (module \<open>./shared\<close>), \<open>IsCortezaID\<close> (module \<open>cast\<close>)
  and the constructor of \<open>Channel\<close>, given by the own properties it computes from a raw
  object.
\<close>

record MessagingHelper =
  channelRead :: "jsval \<Rightarrow> error + jsval"
  channelCreate :: "jsval \<Rightarrow> error + jsval"
  channelUpdate :: "jsval \<Rightarrow> error + jsval"
  authUser :: jsval

record helpers =
  extractID :: "jsval \<Rightarrow> string \<Rightarrow> error + string"
  isFresh :: "jsval \<Rightarrow> bool"
  kv :: "jsval \<Rightarrow> jsval"
  IsCortezaID :: "string \<Rightarrow> bool"
  ChannelProps :: "jsval \<Rightarrow> (string \<times> jsval) list"

text \<open>
  Every remote call is recorded. An asynchronous method returns how its promise settles
  (\<open>Inl\<close> a rejection, \<open>Inr\<close> the fulfilment value) and the remote calls it made, in order.
\<close>

datatype request = ChannelRead jsval | ChannelCreate jsval | ChannelUpdate jsval

type_synonym settled = "(error + jsval) \<times> request list"

definition newChannel :: "helpers \<Rightarrow> jsval \<Rightarrow> jsval" where
  "newChannel d r = JInst ''Channel'' (ChannelProps d r)"

text \<open>\<open>p.then(r => new Channel(r))\<close> for the response \<open>p\<close> of a remote call.\<close>

definition thenNewChannel :: "helpers \<Rightarrow> error + jsval \<Rightarrow> error + jsval" where
  "thenNewChannel d p = (case p of Inl e \<Rightarrow> Inl e | Inr r \<Rightarrow> Inr (newChannel d r))"

definition findChannelByID :: "helpers \<Rightarrow> MessagingHelper \<Rightarrow> jsval \<Rightarrow> settled" where
  "findChannelByID d h channel =
     (case extractID d channel ''channelID'' of
        Inl e \<Rightarrow> (Inl e, [])
      | Inr channelID \<Rightarrow>
          (let req = JObj [(''channelID'', JStr channelID)]
           in (thenNewChannel d (channelRead h req), [ChannelRead req])))"

definition saveChannel :: "helpers \<Rightarrow> MessagingHelper \<Rightarrow> jsval \<Rightarrow> settled" where
  "saveChannel d h channel0 =
     (case await channel0 of
        Inl e \<Rightarrow> (Inl e, [])
      | Inr channel \<Rightarrow>
          if isFresh d (js_prop channel ''channelID'')
          then (thenNewChannel d (channelCreate h (kv d channel)), [ChannelCreate (kv d channel)])
          else (thenNewChannel d (channelUpdate h (kv d channel)), [ChannelUpdate (kv d channel)]))"

text \<open>The second argument defaults to \<open>this.$authUser\<close> when it is \<open>undefined\<close>.\<close>

definition directChannel :: "helpers \<Rightarrow> MessagingHelper \<Rightarrow> jsval \<Rightarrow> jsval \<Rightarrow> settled" where
  "directChannel d h first second0 =
     (let second = (if second0 = Undefined then authUser h else second0)
      in case extractID d first ''userID'' of
           Inl e \<Rightarrow> (Inl e, [])
         | Inr firstUserID \<Rightarrow>
             (case extractID d second ''userID'' of
                Inl e \<Rightarrow> (Inl e, [])
              | Inr secondUserID \<Rightarrow>
                  if firstUserID = secondUserID
                  then (Inl (Error ''can not send message to self''), [])
                  else saveChannel d h
                         (JObj [(''type'', JStr ''group''),
                                (''members'', JArr [JStr firstUserID, JStr secondUserID])])))"

definition isIDString :: "helpers \<Rightarrow> jsval \<Rightarrow> bool" where
  "isIDString d c = (case c of JStr s \<Rightarrow> IsCortezaID d s | _ \<Rightarrow> False)"

function resolveChannel :: "helpers \<Rightarrow> MessagingHelper \<Rightarrow> jsval list \<Rightarrow> settled" where
  "resolveChannel d h [] = (Inl (Error ''unexpected input type for channel resolver''), [])"
| "resolveChannel d h (c0 # args) =
     (case await c0 of
        Inl e \<Rightarrow> (Inl e, [])
      | Inr c \<Rightarrow>
          if \<not> truthy c then resolveChannel d h args
          else if typeof c = ''string'' \<and> isIDString d c then findChannelByID d h c
          else if typeof c \<noteq> ''object'' then resolveChannel d h args
          else if instanceOf c ''Channel'' then (Inr c, [])
          else resolveChannel d h [js_prop c ''channelID''])"
  by pat_completeness auto
termination
proof (relation "measure (\<lambda>(d, h, args). size_list size args)", goal_cases)
  case 1
  show ?case by simp
next
  case (2 d h c0 args c)
  show ?case by simp
next
  case (3 d h c0 args c)
  show ?case by simp
next
  case (4 d h c0 args c)
  then have "size (js_prop c ''channelID'') < size c" and "size c \<le> size c0"
    by (auto intro: size_prop size_await)
  then show ?case by simp
qed


subsection \<open>Concrete collaborators\<close>

text \<open>
  One instance of the collaborators, for evaluating the helper on concrete inputs: an
  identifier is a non-empty string of decimal digits, \<open>extractID\<close> takes the identifier
  from a string or from the named property of an object, the remote API answers every
  request but those for the identifier \<open>404\<close>.
\<close>

definition digitsOnly :: "string \<Rightarrow> bool" where
  "digitsOnly s = (s \<noteq> [] \<and> list_all (\<lambda>c. c \<in> set ''0123456789'') s)"

definition sample_extractID :: "jsval \<Rightarrow> string \<Rightarrow> error + string" where
  "sample_extractID v key =
     (case (case v of JStr s \<Rightarrow> v | _ \<Rightarrow> js_prop v key) of
        JStr s \<Rightarrow> if digitsOnly s then Inr s else Inl (Error ''invalid ID'')
      | _ \<Rightarrow> Inl (Error ''invalid ID''))"

definition sample_helpers :: helpers where
  "sample_helpers =
     \<lparr> extractID = sample_extractID,
       isFresh = (\<lambda>v. \<not> truthy v \<or> v = JStr ''0''),
       kv = (\<lambda>v. v),
       IsCortezaID = digitsOnly,
       ChannelProps = (\<lambda>r. case r of JObj ps \<Rightarrow> ps | _ \<Rightarrow> []) \<rparr>"

definition sample_respond :: "jsval \<Rightarrow> error + jsval" where
  "sample_respond req =
     (if js_prop req ''channelID'' = JStr ''404'' then Inl (Error ''channel not found'')
      else Inr req)"

definition sample_api :: MessagingHelper where
  "sample_api =
     \<lparr> channelRead = sample_respond,
       channelCreate = sample_respond,
       channelUpdate = sample_respond,
       authUser = JInst ''User'' [(''userID'', JStr ''7'')] \<rparr>"

subsection \<open>Properties of the resolver\<close>

text \<open>
  The loop passes over a candidate (\<open>continue\<close>) when its awaited value is falsy, or is
  neither an object nor an identifier-shaped string.
\<close>

definition skipped :: "helpers \<Rightarrow> jsval \<Rightarrow> bool" where
  "skipped d c0 =
     (case await c0 of
        Inl e \<Rightarrow> False
      | Inr c \<Rightarrow> \<not> truthy c \<or> (typeof c \<noteq> ''object'' \<and> \<not> isIDString d c))"

text \<open>
  The candidates of the exhaustion property: falsy once awaited, or a string that is not
  identifier-shaped.
\<close>

definition unresolvable :: "helpers \<Rightarrow> jsval \<Rightarrow> bool" where
  "unresolvable d c0 =
     (case await c0 of
        Inl e \<Rightarrow> False
      | Inr c \<Rightarrow> \<not> truthy c \<or> (typeof c = ''string'' \<and> \<not> isIDString d c))"

definition exhausted :: settled where
  "exhausted = (Inl (Error ''unexpected input type for channel resolver''), [])"

lemma isIDString_typeof: "isIDString d c \<Longrightarrow> typeof c = ''string''"
  by (cases c) (simp_all add: isIDString_def)

lemma unresolvable_skipped: "unresolvable d c0 \<Longrightarrow> skipped d c0"
  by (auto simp: unresolvable_def skipped_def split: sum.splits)

declare resolveChannel.simps(2) [simp del]

lemma resolveChannel_skip:
  "skipped d c0 \<Longrightarrow> resolveChannel d h (c0 # args) = resolveChannel d h args"
  by (subst resolveChannel.simps(2))
     (auto simp: skipped_def split: sum.splits dest: isIDString_typeof)

lemma resolveChannel_skip_prefix:
  "list_all (skipped d) pre \<Longrightarrow> resolveChannel d h (pre @ args) = resolveChannel d h args"
  by (induction pre) (simp_all add: resolveChannel_skip)

lemma resolveChannel_head:
  "\<not> skipped d c0 \<Longrightarrow> resolveChannel d h (c0 # args) = resolveChannel d h [c0]"
  by (subst (1 2) resolveChannel.simps(2))
     (auto simp: skipped_def split: sum.splits dest: isIDString_typeof)

lemma resolveChannel_skip_single: "skipped d c0 \<Longrightarrow> resolveChannel d h [c0] = exhausted"
  by (simp add: resolveChannel_skip exhausted_def)

lemma object_truthy: "typeof c = ''object'' \<Longrightarrow> c \<noteq> Null \<Longrightarrow> truthy c"
  by (cases c) simp_all

text \<open>
  Claim C1 (first wins). When candidate \<open>A\<close> on its own resolves to a channel, resolving
  \<open>[A, B]\<close> settles exactly as resolving \<open>[A]\<close> does: the same channel and the same
  remote calls. \<open>B\<close> is arbitrary here (a resolvable candidate, or even a promise that
  rejects), so it is neither awaited nor looked up.
\<close>

theorem resolveChannel_first_wins:
  assumes "fst (resolveChannel d h [A]) = Inr chA"
  shows "resolveChannel d h [A, B] = resolveChannel d h [A]"
proof (cases "skipped d A")
  case True
  then have "resolveChannel d h [A] = exhausted"
    by (rule resolveChannel_skip_single)
  with assms show ?thesis
    by (simp add: exhausted_def)
next
  case False
  then show ?thesis
    by (rule resolveChannel_head)
qed

theorem resolveChannel_first_wins_witness:
  "fst (resolveChannel sample_helpers sample_api [JStr ''1''])
     = Inr (JInst ''Channel'' [(''channelID'', JStr ''1'')])
   \<and> fst (resolveChannel sample_helpers sample_api [JInst ''Channel'' [(''channelID'', JStr ''2'')]])
     = Inr (JInst ''Channel'' [(''channelID'', JStr ''2'')])
   \<and> resolveChannel sample_helpers sample_api
         [JStr ''1'', JInst ''Channel'' [(''channelID'', JStr ''2'')]]
     = (Inr (JInst ''Channel'' [(''channelID'', JStr ''1'')]),
        [ChannelRead (JObj [(''channelID'', JStr ''1'')])])"
proof -
  have A: "resolveChannel sample_helpers sample_api [JStr ''1'']
           = (Inr (JInst ''Channel'' [(''channelID'', JStr ''1'')]),
              [ChannelRead (JObj [(''channelID'', JStr ''1'')])])"
    by (simp add: resolveChannel.simps(2) isIDString_def findChannelByID_def sample_helpers_def
        sample_api_def sample_extractID_def digitsOnly_def sample_respond_def
        thenNewChannel_def newChannel_def)
  have B: "resolveChannel sample_helpers sample_api [JInst ''Channel'' [(''channelID'', JStr ''2'')]]
           = (Inr (JInst ''Channel'' [(''channelID'', JStr ''2'')]), [])"
    by (simp add: resolveChannel.simps(2) isIDString_def)
  from A have "fst (resolveChannel sample_helpers sample_api [JStr ''1''])
      = Inr (JInst ''Channel'' [(''channelID'', JStr ''1'')])"
    by simp
  from resolveChannel_first_wins [OF this] A B show ?thesis
    by simp
qed

text \<open>
  Claim C5 (exhaustion). When every candidate is falsy once awaited, or is a string
  that is not identifier-shaped, the call rejects with the generic error
  \<open>unexpected input type for channel resolver\<close> and makes no remote call. The whole
  list is passed over first: whatever candidates follow it are reached, so resolving
  the list followed by \<open>rest\<close> settles as resolving \<open>rest\<close> does.
\<close>

theorem resolveChannel_exhaustion:
  assumes "list_all (unresolvable d) args"
  shows "resolveChannel d h args
           = (Inl (Error ''unexpected input type for channel resolver''), [])
         \<and> resolveChannel d h (args @ rest) = resolveChannel d h rest"
proof -
  from assms have skip: "list_all (skipped d) args"
    by (induction args) (simp_all add: unresolvable_skipped)
  then have "resolveChannel d h (args @ rest') = resolveChannel d h rest'" for rest'
    by (rule resolveChannel_skip_prefix)
  from this [of "[]"] this [of rest] show ?thesis
    by simp
qed

theorem resolveChannel_exhaustion_witness:
  "list_all (unresolvable sample_helpers)
     [Undefined, JStr ''general'', JPromise (Inr Null), JStr [], JNum (Num 0)]
   \<and> resolveChannel sample_helpers sample_api
         [Undefined, JStr ''general'', JPromise (Inr Null), JStr [], JNum (Num 0)]
       = (Inl (Error ''unexpected input type for channel resolver''), [])
   \<and> resolveChannel sample_helpers sample_api
         ([Undefined, JStr ''general'', JPromise (Inr Null), JStr [], JNum (Num 0)]
            @ [JInst ''Channel'' []])
       = (Inr (JInst ''Channel'' []), [])"
proof -
  have u: "list_all (unresolvable sample_helpers)
     [Undefined, JStr ''general'', JPromise (Inr Null), JStr [], JNum (Num 0)]"
    by (simp add: unresolvable_def isIDString_def sample_helpers_def digitsOnly_def)
  have r: "resolveChannel sample_helpers sample_api [JInst ''Channel'' []]
             = (Inr (JInst ''Channel'' []), [])"
    by (simp add: resolveChannel.simps(2) isIDString_def)
  from resolveChannel_exhaustion [OF u, of sample_api "[JInst ''Channel'' []]"] u r
  show ?thesis
    by simp
qed

text \<open>
  Claim C6 (identifier lookup). When the loop reaches a candidate whose awaited value is
  an identifier-shaped string, the call settles as \<open>findChannelByID\<close> of that string
  does, whatever candidates follow. In particular, when the remote lookup rejects, the
  call rejects with the lookup's error after that single remote call.
\<close>

theorem resolveChannel_lookup_propagates:
  assumes "list_all (skipped d) pre"
    and "await c0 = Inr (JStr s)" and "s \<noteq> []" and "IsCortezaID d s"
  shows "resolveChannel d h (pre @ c0 # rest) = findChannelByID d h (JStr s)
         \<and> (extractID d (JStr s) ''channelID'' = Inr channelID
              \<and> channelRead h (JObj [(''channelID'', JStr channelID)]) = Inl e
            \<longrightarrow> resolveChannel d h (pre @ c0 # rest)
                  = (Inl e, [ChannelRead (JObj [(''channelID'', JStr channelID)])]))"
proof -
  have "resolveChannel d h (pre @ c0 # rest) = resolveChannel d h (c0 # rest)"
    using assms(1) by (rule resolveChannel_skip_prefix)
  also have "\<dots> = findChannelByID d h (JStr s)"
    using assms(2-4) by (subst resolveChannel.simps(2)) (simp add: isIDString_def)
  finally have eq: "resolveChannel d h (pre @ c0 # rest) = findChannelByID d h (JStr s)" .
  then show ?thesis
    by (simp add: findChannelByID_def thenNewChannel_def)
qed

theorem resolveChannel_lookup_propagates_witness:
  "list_all (skipped sample_helpers) [Null, JBool True]
   \<and> await (JPromise (Inr (JStr ''404''))) = Inr (JStr ''404'')
   \<and> IsCortezaID sample_helpers ''404''
   \<and> extractID sample_helpers (JStr ''404'') ''channelID'' = Inr ''404''
   \<and> channelRead sample_api (JObj [(''channelID'', JStr ''404'')]) = Inl (Error ''channel not found'')
   \<and> resolveChannel sample_helpers sample_api
        ([Null, JBool True] @ JPromise (Inr (JStr ''404'')) # [JInst ''Channel'' []])
       = (Inl (Error ''channel not found''), [ChannelRead (JObj [(''channelID'', JStr ''404'')])])"
proof -
  have sk: "list_all (skipped sample_helpers) [Null, JBool True]"
    by (simp add: skipped_def isIDString_def)
  have aw: "await (JPromise (Inr (JStr ''404''))) = Inr (JStr ''404'')"
    by simp
  have ne: "''404'' \<noteq> []"
    by simp
  have isid: "IsCortezaID sample_helpers ''404''"
    by (simp add: sample_helpers_def digitsOnly_def)
  have ex: "extractID sample_helpers (JStr ''404'') ''channelID'' = Inr ''404''"
    by (simp add: sample_helpers_def sample_extractID_def digitsOnly_def)
  have rd: "channelRead sample_api (JObj [(''channelID'', JStr ''404'')])
              = Inl (Error ''channel not found'')"
    by (simp add: sample_api_def sample_respond_def)
  have "resolveChannel sample_helpers sample_api
        ([Null, JBool True] @ JPromise (Inr (JStr ''404'')) # [JInst ''Channel'' []])
       = (Inl (Error ''channel not found''), [ChannelRead (JObj [(''channelID'', JStr ''404'')])])"
    using resolveChannel_lookup_propagates [OF sk aw ne isid,
      of sample_api "[JInst ''Channel'' []]" "''404''" "Error ''channel not found''", THEN conjunct2]
      ex rd
    by simp
  with sk aw isid ex rd show ?thesis
    by simp
qed

text \<open>
  Claim C10 (an object ends the resolution). When the loop reaches a candidate whose
  awaited value is a non-null object that is not a \<open>Channel\<close> instance, the call settles
  as \<open>resolveChannel\<close> of the single value of its \<open>channelID\<close> property does; the later
  candidates play no part. When that property is absent or falsy the call rejects with
  the generic error.
\<close>

theorem resolveChannel_object_terminates:
  assumes "list_all (skipped d) pre"
    and "await c0 = Inr c" and "typeof c = ''object''" and "c \<noteq> Null"
    and "\<not> instanceOf c ''Channel''"
  shows "resolveChannel d h (pre @ c0 # rest) = resolveChannel d h [js_prop c ''channelID'']
         \<and> (\<not> truthy (js_prop c ''channelID'')
            \<longrightarrow> resolveChannel d h (pre @ c0 # rest)
                  = (Inl (Error ''unexpected input type for channel resolver''), []))"
proof -
  from assms(3,4) have t: "truthy c"
    by (rule object_truthy)
  have n: "\<not> isIDString d c"
    using assms(3) isIDString_typeof [of d c] by auto
  have "resolveChannel d h (pre @ c0 # rest) = resolveChannel d h (c0 # rest)"
    using assms(1) by (rule resolveChannel_skip_prefix)
  also have "\<dots> = resolveChannel d h [js_prop c ''channelID'']"
    using assms(2,3,5) t n by (subst resolveChannel.simps(2)) simp
  finally have eq:
    "resolveChannel d h (pre @ c0 # rest) = resolveChannel d h [js_prop c ''channelID'']" .
  have "resolveChannel d h [js_prop c ''channelID''] = exhausted"
    if "\<not> truthy (js_prop c ''channelID'')"
  proof -
    have "await (js_prop c ''channelID'') = Inr (js_prop c ''channelID'')"
      using that by (cases "js_prop c ''channelID''") simp_all
    with that have "skipped d (js_prop c ''channelID'')"
      by (simp add: skipped_def)
    then show ?thesis
      by (rule resolveChannel_skip_single)
  qed
  with eq show ?thesis
    by (simp add: exhausted_def)
qed

theorem resolveChannel_object_terminates_witness:
  "list_all (skipped sample_helpers) [Undefined]
   \<and> await (JObj [(''name'', JStr ''general'')]) = Inr (JObj [(''name'', JStr ''general'')])
   \<and> \<not> truthy (js_prop (JObj [(''name'', JStr ''general'')]) ''channelID'')
   \<and> fst (resolveChannel sample_helpers sample_api [JInst ''Channel'' []]) = Inr (JInst ''Channel'' [])
   \<and> resolveChannel sample_helpers sample_api
        ([Undefined] @ JObj [(''name'', JStr ''general'')] # [JInst ''Channel'' []])
       = (Inl (Error ''unexpected input type for channel resolver''), [])"
proof -
  have sk: "list_all (skipped sample_helpers) [Undefined]"
    by (simp add: skipped_def)
  have aw: "await (JObj [(''name'', JStr ''general'')]) = Inr (JObj [(''name'', JStr ''general'')])"
    by simp
  have ty: "typeof (JObj [(''name'', JStr ''general'')]) = ''object''"
    by simp
  have nn: "JObj [(''name'', JStr ''general'')] \<noteq> Null"
    by simp
  have ni: "\<not> instanceOf (JObj [(''name'', JStr ''general'')]) ''Channel''"
    by simp
  have r: "resolveChannel sample_helpers sample_api [JInst ''Channel'' []]
             = (Inr (JInst ''Channel'' []), [])"
    by (simp add: resolveChannel.simps(2) isIDString_def)
  have "resolveChannel sample_helpers sample_api
        ([Undefined] @ JObj [(''name'', JStr ''general'')] # [JInst ''Channel'' []])
       = (Inl (Error ''unexpected input type for channel resolver''), [])"
    using resolveChannel_object_terminates [OF sk aw ty nn ni,
      of sample_api "[JInst ''Channel'' []]", THEN conjunct2]
    by simp
  with sk aw r show ?thesis
    by simp
qed

text \<open>
  Claim C7 (self reference). When \<open>extractID\<close> yields the same identifier for the first
  user and for the second (the authenticated user when the second argument is
  \<open>undefined\<close>), \<open>directChannel\<close> rejects with \<open>can not send message to self\<close> and makes
  no remote call.
\<close>

theorem directChannel_self_rejected:
  assumes "extractID d first ''userID'' = Inr uid"
    and "extractID d (if second = Undefined then authUser h else second) ''userID'' = Inr uid"
  shows "directChannel d h first second = (Inl (Error ''can not send message to self''), [])"
  using assms by (simp add: directChannel_def)

theorem directChannel_self_rejected_witness:
  "extractID sample_helpers (JStr ''7'') ''userID'' = Inr ''7''
   \<and> extractID sample_helpers (authUser sample_api) ''userID'' = Inr ''7''
   \<and> directChannel sample_helpers sample_api (JStr ''7'') Undefined
       = (Inl (Error ''can not send message to self''), [])"
proof -
  have a: "extractID sample_helpers (JStr ''7'') ''userID'' = Inr ''7''"
    by (simp add: sample_helpers_def sample_extractID_def digitsOnly_def)
  have b: "extractID sample_helpers (authUser sample_api) ''userID'' = Inr ''7''"
    by (simp add: sample_helpers_def sample_api_def sample_extractID_def digitsOnly_def)
  then have b': "extractID sample_helpers
      (if Undefined = Undefined then authUser sample_api else Undefined) ''userID'' = Inr ''7''"
    by simp
  from directChannel_self_rejected [OF a b'] a b show ?thesis
    by simp
qed

section \<open>Casts and guards\<close>

text \<open>
  The modules \<open>cast\<close> and \<open>guards\<close> are imported by the entity types and are not part of
  the sources at hand. The coercers are parameters of the model: \<open>CortezaID\<close> and
  \<open>ISO8601Date\<close>, the conversions \<open>String\<close> and \<open>Number\<close> of the language (each a
  function of the value it converts; a second argument is ignored), and the sentinel
  \<open>NoID\<close>. \<open>Boolean v\<close> is the truthiness of \<open>v\<close>. A date is its time value in
  milliseconds.
\<close>

type_synonym Date = int

record cast =
  NoID :: string
  CortezaID :: "jsval \<Rightarrow> string"
  String :: "jsval \<Rightarrow> string"
  Number :: "jsval \<Rightarrow> number"
  ISO8601Date :: "jsval \<Rightarrow> Date option"

definition Boolean :: "jsval \<Rightarrow> bool" where
  "Boolean v = truthy v"

text \<open>
  Modelled from the spec: \<open>Apply\<close> (module \<open>cast\<close>) is absent from the sources. For each
  field name, if \<open>source[fieldName]\<close> is present (not \<open>undefined\<close>), the field becomes
  \<open>coerce(source[fieldName], target[fieldName])\<close>; otherwise it is left unchanged.
  \<open>Apply target_field source coerce fieldName\<close> is the new value of the one field
  \<open>fieldName\<close> whose current value is \<open>target_field\<close>; a call with several field names is
  one \<open>Apply\<close> for each.
\<close>

definition Apply :: "'a \<Rightarrow> jsval \<Rightarrow> (jsval \<Rightarrow> 'a \<Rightarrow> 'a) \<Rightarrow> string \<Rightarrow> 'a" where
  "Apply target_field source coerce fieldName =
     (if js_prop source fieldName = Undefined then target_field
      else coerce (js_prop source fieldName) target_field)"

text \<open>
  Modelled from the spec: \<open>IsOf\<close> (module \<open>guards\<close>) is absent from the sources. It is true
  iff the value is a non-null object and has an own, defined property with that name.
\<close>

definition IsOf :: "jsval \<Rightarrow> string \<Rightarrow> bool" where
  "IsOf v propertyName =
     (typeof v = ''object'' \<and> v \<noteq> Null \<and> js_prop v propertyName \<noteq> Undefined)"

text \<open>
  Modelled from the spec: \<open>AreObjectsOf\<close> (module \<open>guards\<close>) is absent from the sources. It
  is true iff every element of the array satisfies \<open>IsOf\<close>. The spec speaks of arrays
  only; a value that is not an array is not accepted here.
\<close>

definition AreObjectsOf :: "jsval \<Rightarrow> string \<Rightarrow> bool" where
  "AreObjectsOf v propertyName =
     (case v of JArr xs \<Rightarrow> list_all (\<lambda>x. IsOf x propertyName) xs | _ \<Rightarrow> False)"

fun elements :: "jsval \<Rightarrow> jsval list" where
  "elements (JArr xs) = xs"
| "elements v = []"

text \<open>
  \<open>xs.map(f)\<close> for a callback that may throw: the first exception ends the traversal.
\<close>

fun map_throwing :: "('a \<Rightarrow> error + 'b) \<Rightarrow> 'a list \<Rightarrow> error + 'b list" where
  "map_throwing f [] = Inr []"
| "map_throwing f (x # xs) =
     (case f x of
        Inl e \<Rightarrow> Inl e
      | Inr y \<Rightarrow> (case map_throwing f xs of Inl e \<Rightarrow> Inl e | Inr ys \<Rightarrow> Inr (y # ys)))"

section \<open>Page blocks and their registry\<close>

text \<open>
  The registry maps a kind to the constructor of its block class
  (\<open>Registry.set(kind, PageBlockIFrame)\<close> in \<open>page-block/iframe.ts\<close>); a later
  registration for the same kind replaces the earlier one. The block classes are a type
  parameter.
\<close>

type_synonym 'b Registry = "string \<rightharpoonup> (jsval \<Rightarrow> 'b)"

definition Registry_set :: "'b Registry \<Rightarrow> string \<Rightarrow> (jsval \<Rightarrow> 'b) \<Rightarrow> 'b Registry" where
  "Registry_set R kind ctor = R(kind \<mapsto> ctor)"

text \<open>
  Modelled from the spec: \<open>PageBlockMaker\<close> (module \<open>page-block\<close>) is absent from the
  sources. It reads the raw object's \<open>kind\<close>, finds the matching constructor and invokes
  it with the raw object; for an unregistered kind construction fails with one
  distinguishable error.
\<close>

definition PageBlockMaker :: "'b Registry \<Rightarrow> jsval \<Rightarrow> error + 'b" where
  "PageBlockMaker R b =
     (case js_prop b ''kind'' of
        JStr k \<Rightarrow> (case R k of None \<Rightarrow> Inl UnregisteredKind | Some ctor \<Rightarrow> Inr (ctor b))
      | _ \<Rightarrow> Inl UnregisteredKind)"

section \<open>Pages\<close>

text \<open>
  \<open>src/compose/types/page.ts\<close>. A page owns its sub-pages, so the class is a datatype:
  the record of its other fields, and \<open>children\<close> (\<open>None\<close> while \<open>undefined\<close>).
\<close>

record 'b PageFields =
  pageID :: string
  selfID :: string
  moduleID :: string
  namespaceID :: string
  title :: string
  handle :: string
  description :: string
  weight :: number
  visible :: bool
  blocks :: "'b list"
  createdAt :: "Date option"
  updatedAt :: "Date option"
  deletedAt :: "Date option"
  canUpdatePage :: bool
  canDeletePage :: bool
  canGrant :: bool

datatype 'b Page = Page (data: "'b PageFields") (children: "'b Page list option")

text \<open>The field initialisers of the class.\<close>

definition Page_init :: "cast \<Rightarrow> 'b Page" where
  "Page_init c =
     Page \<lparr> pageID = NoID c, selfID = NoID c, moduleID = NoID c, namespaceID = NoID c,
            title = [], handle = [], description = [], weight = Num 0, visible = False,
            blocks = [], createdAt = None, updatedAt = None, deletedAt = None,
            canUpdatePage = False, canDeletePage = False, canGrant = False \<rparr>
          None"

text \<open>Lines 51 to 54 of \<open>apply\<close>: the identifiers, strings, number and flag.\<close>

definition Page_applyScalars :: "cast \<Rightarrow> 'b PageFields \<Rightarrow> jsval \<Rightarrow> 'b PageFields" where
  "Page_applyScalars c this i =
     this \<lparr> pageID := Apply (pageID this) i (\<lambda>v _. CortezaID c v) ''pageID'',
            selfID := Apply (selfID this) i (\<lambda>v _. CortezaID c v) ''selfID'',
            moduleID := Apply (moduleID this) i (\<lambda>v _. CortezaID c v) ''moduleID'',
            namespaceID := Apply (namespaceID this) i (\<lambda>v _. CortezaID c v) ''namespaceID'',
            title := Apply (title this) i (\<lambda>v _. String c v) ''title'',
            handle := Apply (handle this) i (\<lambda>v _. String c v) ''handle'',
            description := Apply (description this) i (\<lambda>v _. String c v) ''description'',
            weight := Apply (weight this) i (\<lambda>v _. Number c v) ''weight'',
            visible := Apply (visible this) i (\<lambda>v _. Boolean v) ''visible'' \<rparr>"

text \<open>
  Lines 56 to 61: the new value of \<open>this.blocks\<close>, and the exception when a constructor
  throws (\<open>this.blocks\<close> is the empty array by then).
\<close>

definition Page_applyBlocks :: "'b Registry \<Rightarrow> 'b list \<Rightarrow> jsval \<Rightarrow> 'b list \<times> error option" where
  "Page_applyBlocks R this_blocks i =
     (if truthy (js_prop i ''blocks'') then
        (if AreObjectsOf (js_prop i ''blocks'') ''kind'' \<and> AreObjectsOf (js_prop i ''blocks'') ''xywh''
         then (case map_throwing (PageBlockMaker R) (elements (js_prop i ''blocks'')) of
                 Inl e \<Rightarrow> ([], Some e)
               | Inr bs \<Rightarrow> (bs, None))
         else ([], None))
      else (this_blocks, None))"

text \<open>Lines 70 to 75: the dates and the permission flags.\<close>

definition Page_applyTail :: "cast \<Rightarrow> 'b PageFields \<Rightarrow> jsval \<Rightarrow> 'b PageFields" where
  "Page_applyTail c this i =
     this \<lparr> createdAt := Apply (createdAt this) i (\<lambda>v _. ISO8601Date c v) ''createdAt'',
            updatedAt := Apply (updatedAt this) i (\<lambda>v _. ISO8601Date c v) ''updatedAt'',
            deletedAt := Apply (deletedAt this) i (\<lambda>v _. ISO8601Date c v) ''deletedAt'',
            canUpdatePage := Apply (canUpdatePage this) i (\<lambda>v _. Boolean v) ''canUpdatePage'',
            canDeletePage := Apply (canDeletePage this) i (\<lambda>v _. Boolean v) ''canDeletePage'',
            canGrant := Apply (canGrant this) i (\<lambda>v _. Boolean v) ''canGrant'' \<rparr>"

lemma size_js_prop_le: "size (js_prop v k) \<le> size v"
  by (cases v) (auto split: option.splits dest: size_map_of)

lemma size_elements_le: "size_list size (elements v) \<le> size v"
  by (cases v) simp_all

lemma size_children: "2 * size_list size (elements (js_prop i k)) < Suc (2 * size i)"
  using size_elements_le [of "js_prop i k"] size_js_prop_le [of i k] by simp

text \<open>
  \<open>Page_apply c R this i\<close> is \<open>this.apply(i)\<close>: the page as the call leaves it, and the
  exception when the call throws. \<open>Page_children c R xs\<close> is \<open>xs.map(c => new Page(c))\<close>,
  where each constructor runs the field initialisers and \<open>apply\<close>.
\<close>

function Page_apply :: "cast \<Rightarrow> 'b Registry \<Rightarrow> 'b Page \<Rightarrow> jsval \<Rightarrow> 'b Page \<times> error option"
  and Page_children :: "cast \<Rightarrow> 'b Registry \<Rightarrow> jsval list \<Rightarrow> error + 'b Page list"
where
  "Page_apply c R this i =
     (if \<not> truthy i then (this, None)
      else
        let f1 = Page_applyScalars c (data this) i in
        case Page_applyBlocks R (blocks f1) i of
          (bs, Some e) \<Rightarrow> (Page (f1 \<lparr> blocks := bs \<rparr>) (children this), Some e)
        | (bs, None) \<Rightarrow>
            let f2 = f1 \<lparr> blocks := bs \<rparr> in
            if truthy (js_prop i ''children'') then
              (if AreObjectsOf (js_prop i ''children'') ''pageID''
               then (case Page_children c R (elements (js_prop i ''children'')) of
                       Inl e \<Rightarrow> (Page f2 (Some []), Some e)
                     | Inr ps \<Rightarrow> (Page (Page_applyTail c f2 i) (Some ps), None))
               else (Page (Page_applyTail c f2 i) (Some []), None))
            else (Page (Page_applyTail c f2 i) (children this), None))"
| "Page_children c R [] = Inr []"
| "Page_children c R (x # xs) =
     (case Page_apply c R (Page_init c) x of
        (p, Some e) \<Rightarrow> Inl e
      | (p, None) \<Rightarrow>
          (case Page_children c R xs of Inl e \<Rightarrow> Inl e | Inr ps \<Rightarrow> Inr (p # ps)))"
  by pat_completeness auto
termination
  by (relation "measure (\<lambda>a. case a of
          Inl (c, R, this, i) \<Rightarrow> Suc (2 * size i)
        | Inr (c, R, xs) \<Rightarrow> 2 * size_list size xs)")
     (simp_all add: size_children)

declare Page_apply.simps [simp del]

text \<open>\<open>new Page(i)\<close>.\<close>

definition newPage :: "cast \<Rightarrow> 'b Registry \<Rightarrow> jsval \<Rightarrow> error + 'b Page" where
  "newPage c R i =
     (case Page_apply c R (Page_init c) i of (p, Some e) \<Rightarrow> Inl e | (p, None) \<Rightarrow> Inr p)"

text \<open>
  \<open>validate\<close>: the messages, and the page after the call. The \<open>validate\<close> method of the
  block classes is a parameter.
\<close>

definition Page_validate :: "('b \<Rightarrow> string list) \<Rightarrow> 'b Page \<Rightarrow> string list \<times> 'b Page" where
  "Page_validate validate this =
     (foldl (\<lambda>ee b. ee @ validate b) [] (blocks (data this)), this)"

definition isRecordPage :: "cast \<Rightarrow> 'b Page \<Rightarrow> bool" where
  "isRecordPage c this = (moduleID (data this) \<noteq> NoID c)"

definition firstLevel :: "cast \<Rightarrow> 'b Page \<Rightarrow> bool" where
  "firstLevel c this = (selfID (data this) = NoID c)"

section \<open>Namespaces\<close>

text \<open>
  \<open>src/compose/types/namespace.ts\<close>. \<open>spread v\<close> is the own enumerable properties that
  \<open>{ ...v }\<close> copies: those of an object, the indexed elements of an array or the indexed
  characters of a string, and none for any other value.
\<close>

fun decimal :: "nat \<Rightarrow> string" where
  "decimal n =
     (if n < 10 then [''0123456789'' ! n]
      else decimal (n div 10) @ [''0123456789'' ! (n mod 10)])"

declare decimal.simps [simp del]

definition indexed :: "jsval list \<Rightarrow> (string \<times> jsval) list" where
  "indexed xs = zip (map decimal [0..<length xs]) xs"

fun spread :: "jsval \<Rightarrow> (string \<times> jsval) list" where
  "spread (JObj ps) = ps"
| "spread (JInst c ps) = ps"
| "spread (JArr xs) = indexed xs"
| "spread (JStr s) = indexed (map (\<lambda>ch. JStr [ch]) s)"
| "spread v = []"

record Namespace =
  namespaceID :: string
  name :: string
  slug :: string
  enabled :: bool
  meta :: jsval
  createdAt :: "Date option"
  updatedAt :: "Date option"
  deletedAt :: "Date option"
  canCreateChart :: bool
  canCreateModule :: bool
  canCreatePage :: bool
  canDeleteNamespace :: bool
  canUpdateNamespace :: bool
  canManageNamespace :: bool
  canGrant :: bool

definition Namespace_init :: "cast \<Rightarrow> Namespace" where
  "Namespace_init c =
     \<lparr> namespaceID = NoID c, name = [], slug = [], enabled = False, meta = JObj [],
       createdAt = None, updatedAt = None, deletedAt = None,
       canCreateChart = False, canCreateModule = False, canCreatePage = False,
       canDeleteNamespace = False, canUpdateNamespace = False, canManageNamespace = False,
       canGrant = False \<rparr>"

definition Namespace_apply :: "cast \<Rightarrow> Namespace \<Rightarrow> jsval \<Rightarrow> Namespace" where
  "Namespace_apply c this n =
     (if \<not> truthy n then this
      else
        this \<lparr> namespaceID := Apply (namespaceID this) n (\<lambda>v _. CortezaID c v) ''namespaceID'',
               name := Apply (name this) n (\<lambda>v _. String c v) ''name'',
               slug := Apply (slug this) n (\<lambda>v _. String c v) ''slug'',
               enabled := Apply (enabled this) n (\<lambda>v _. Boolean v) ''enabled'',
               meta := (if IsOf n ''meta'' then JObj (spread (js_prop n ''meta'')) else meta this),
               createdAt := Apply (createdAt this) n (\<lambda>v _. ISO8601Date c v) ''createdAt'',
               updatedAt := Apply (updatedAt this) n (\<lambda>v _. ISO8601Date c v) ''updatedAt'',
               deletedAt := Apply (deletedAt this) n (\<lambda>v _. ISO8601Date c v) ''deletedAt'',
               canCreateChart := Apply (canCreateChart this) n (\<lambda>v _. Boolean v) ''canCreateChart'',
               canCreateModule := Apply (canCreateModule this) n (\<lambda>v _. Boolean v) ''canCreateModule'',
               canCreatePage := Apply (canCreatePage this) n (\<lambda>v _. Boolean v) ''canCreatePage'',
               canDeleteNamespace :=
                 Apply (canDeleteNamespace this) n (\<lambda>v _. Boolean v) ''canDeleteNamespace'',
               canUpdateNamespace :=
                 Apply (canUpdateNamespace this) n (\<lambda>v _. Boolean v) ''canUpdateNamespace'',
               canManageNamespace :=
                 Apply (canManageNamespace this) n (\<lambda>v _. Boolean v) ''canManageNamespace'',
               canGrant := Apply (canGrant this) n (\<lambda>v _. Boolean v) ''canGrant'' \<rparr>)"

definition newNamespace :: "cast \<Rightarrow> jsval \<Rightarrow> Namespace" where
  "newNamespace c i = Namespace_apply c (Namespace_init c) i"

section \<open>Module fields\<close>

text \<open>
  \<open>src/compose/types/module-field.ts\<close>. \<open>kind\<close>, \<open>defaultValue\<close> and \<open>options\<close> are assigned
  from the raw object as they are, so they hold any value.
\<close>

record ModuleField =
  fieldID :: string
  name :: string
  kind :: jsval
  label :: string
  defaultValue :: jsval
  maxLength :: number
  isRequired :: bool
  isPrivate :: bool
  isMulti :: bool
  isSystem :: bool
  options :: jsval
  canUpdateRecordValue :: bool
  canReadRecordValue :: bool

definition ModuleField_init :: "cast \<Rightarrow> ModuleField" where
  "ModuleField_init c =
     \<lparr> fieldID = NoID c, name = [], kind = JStr [], label = [], defaultValue = Undefined,
       maxLength = Num 0, isRequired = False, isPrivate = False, isMulti = False,
       isSystem = False, options = JObj [],
       canUpdateRecordValue = False, canReadRecordValue = False \<rparr>"

definition ModuleField_apply :: "cast \<Rightarrow> ModuleField \<Rightarrow> jsval \<Rightarrow> ModuleField" where
  "ModuleField_apply c this f =
     (if \<not> truthy f then this
      else
        let this1 = this \<lparr> fieldID := Apply (fieldID this) f (\<lambda>v _. CortezaID c v) ''fieldID'',
                           name := Apply (name this) f (\<lambda>v _. String c v) ''name'',
                           label := Apply (label this) f (\<lambda>v _. String c v) ''label'',
                           kind := Apply (kind this) f (\<lambda>v _. JStr (String c v)) ''kind'',
                           maxLength := Apply (maxLength this) f (\<lambda>v _. Number c v) ''maxLength'',
                           isRequired := Apply (isRequired this) f (\<lambda>v _. Boolean v) ''isRequired'',
                           isPrivate := Apply (isPrivate this) f (\<lambda>v _. Boolean v) ''isPrivate'',
                           isMulti := Apply (isMulti this) f (\<lambda>v _. Boolean v) ''isMulti'',
                           isSystem := Apply (isSystem this) f (\<lambda>v _. Boolean v) ''isSystem'' \<rparr>;
            this2 = (if truthy (js_prop f ''defaultValue'')
                     then this1 \<lparr> defaultValue := js_prop f ''defaultValue'' \<rparr>
                     else this1);
            this3 = (if isSystem this2
                     then this2 \<lparr> canUpdateRecordValue := True, canReadRecordValue := True \<rparr>
                     else this2 \<lparr> canUpdateRecordValue :=
                                     Apply (canUpdateRecordValue this2) f (\<lambda>v _. Boolean v)
                                       ''canUpdateRecordValue'',
                                   canReadRecordValue :=
                                     Apply (canReadRecordValue this2) f (\<lambda>v _. Boolean v)
                                       ''canReadRecordValue'' \<rparr>);
            this4 = (if IsOf f ''kind'' then this3 \<lparr> kind := js_prop f ''kind'' \<rparr> else this3)
        in if IsOf f ''options'' then this4 \<lparr> options := js_prop f ''options'' \<rparr> else this4)"

definition newModuleField :: "cast \<Rightarrow> jsval \<Rightarrow> ModuleField" where
  "newModuleField c f = ModuleField_apply c (ModuleField_init c) f"

section \<open>Concrete coercers and registry\<close>

text \<open>
  One instance of the coercers, for evaluating the entity types on concrete inputs. The
  sentinel is \<open>0\<close>; an identifier is a string of decimal digits and anything else is the
  sentinel; a date is read from a non-zero time value. \<open>sample_String\<close> and
  \<open>sample_Number\<close> are the conversions of the language on \<open>undefined\<close>, \<open>null\<close>, the
  booleans, the numbers of the model, and (for \<open>sample_Number\<close>) the empty string and the
  strings of decimal digits; \<open>sample_String\<close> is the identity on strings. On any other
  value (an object, an array, a string with a sign, blanks or a fraction) they are not
  the language's conversions, and no example below uses them there. The registry holds
  one kind, \<open>X\<close>, whose block keeps the raw object.
\<close>

definition sample_String :: "jsval \<Rightarrow> string" where
  "sample_String v =
     (case v of
        JStr s \<Rightarrow> s
      | JBool b \<Rightarrow> if b then ''true'' else ''false''
      | Null \<Rightarrow> ''null''
      | Undefined \<Rightarrow> ''undefined''
      | JNum (Num n) \<Rightarrow> if n < 0 then ''-'' @ decimal (nat (- n)) else decimal (nat n)
      | JNum NaN \<Rightarrow> ''NaN''
      | _ \<Rightarrow> ''[object Object]'')"

definition sample_Number :: "jsval \<Rightarrow> number" where
  "sample_Number v =
     (case v of
        JNum n \<Rightarrow> n
      | JBool b \<Rightarrow> Num (if b then 1 else 0)
      | Null \<Rightarrow> Num 0
      | JStr s \<Rightarrow>
          if s = [] then Num 0
          else if digitsOnly s
          then Num (int (foldl (\<lambda>a ch. 10 * a + (of_char ch - 48)) (0 :: nat) s))
          else NaN
      | _ \<Rightarrow> NaN)"

definition sample_cast :: cast where
  "sample_cast =
     \<lparr> NoID = ''0'',
       CortezaID = (\<lambda>v. case v of JStr s \<Rightarrow> if digitsOnly s then s else ''0'' | _ \<Rightarrow> ''0''),
       String = sample_String,
       Number = sample_Number,
       ISO8601Date = (\<lambda>v. case v of JNum (Num t) \<Rightarrow> if t = 0 then None else Some t | _ \<Rightarrow> None) \<rparr>"

definition sample_registry :: "jsval Registry" where
  "sample_registry = Registry_set Map.empty ''X'' (\<lambda>i. i)"

section \<open>Properties of the entity types\<close>

lemma Apply_absent [simp]: "js_prop source k = Undefined \<Longrightarrow> Apply t source coerce k = t"
  by (simp add: Apply_def)

lemma Apply_idem [simp]:
  "Apply (Apply t source (\<lambda>v _. g v) k) source (\<lambda>v _. g v) k = Apply t source (\<lambda>v _. g v) k"
  by (simp add: Apply_def)

lemma foldl_validate: "foldl (\<lambda>ee b. ee @ validate b) acc bs = acc @ concat (map validate bs)"
  by (induction bs arbitrary: acc) simp_all

text \<open>
  Claim C8 (validation order), as amended. \<open>validate\<close> walks the page's blocks, not its
  children. For a page whose blocks are \<open>[c1, c2, c3]\<close> with \<open>c2\<close> valid (no messages),
  \<open>validate\<close> returns the messages of \<open>c1\<close> followed by those of \<open>c3\<close> and nothing else,
  and the page is as it was. Nothing is assumed of \<open>c1\<close> and \<open>c3\<close>, and the sub-pages in
  \<open>children\<close> play no part.
\<close>

theorem Page_validate_order:
  assumes "blocks (data this) = [c1, c2, c3]" and "validate c2 = []"
  shows "Page_validate validate this = (validate c1 @ validate c3, this)"
  using assms by (simp add: Page_validate_def foldl_validate)

theorem Page_validate_order_witness:
  "blocks (data (Page ((data (Page_init sample_cast))
       \<lparr> blocks := [[''title is empty''], [], [''xywh must have 4 elements'', ''src is empty'']] \<rparr>) None))
     = [[''title is empty''], [], [''xywh must have 4 elements'', ''src is empty'']]
   \<and> Page_validate id (Page ((data (Page_init sample_cast))
       \<lparr> blocks := [[''title is empty''], [], [''xywh must have 4 elements'', ''src is empty'']] \<rparr>) None)
     = ([''title is empty'', ''xywh must have 4 elements'', ''src is empty''],
        Page ((data (Page_init sample_cast))
       \<lparr> blocks := [[''title is empty''], [], [''xywh must have 4 elements'', ''src is empty'']] \<rparr>) None)"
proof -
  have b: "blocks (data (Page ((data (Page_init sample_cast))
       \<lparr> blocks := [[''title is empty''], [], [''xywh must have 4 elements'', ''src is empty'']] \<rparr>) None))
     = [[''title is empty''], [], [''xywh must have 4 elements'', ''src is empty'']]"
    by simp
  have v: "id ([] :: string list) = []"
    by simp
  from Page_validate_order [of _ _ _ _ id, OF b v] b show ?thesis
    by simp
qed

text \<open>
  The claim as stated fails: \<open>validate\<close> never reads \<open>children\<close>. The page below has no
  block and three sub-pages; the first and the third each have one invalid block and
  validate to a message, the second has none. The page itself validates to no message.
\<close>

theorem Page_validate_ignores_children:
  "Page_validate id
       (Page ((data (Page_init sample_cast)) \<lparr> blocks := [[''title is empty'']] \<rparr>) None)
     = ([''title is empty''],
        Page ((data (Page_init sample_cast)) \<lparr> blocks := [[''title is empty'']] \<rparr>) None)
   \<and> Page_validate id (Page_init sample_cast :: string list Page)
     = ([], Page_init sample_cast)
   \<and> Page_validate id
       (Page ((data (Page_init sample_cast)) \<lparr> blocks := [[''src is empty'']] \<rparr>) None)
     = ([''src is empty''],
        Page ((data (Page_init sample_cast)) \<lparr> blocks := [[''src is empty'']] \<rparr>) None)
   \<and> children
       (Page (data (Page_init sample_cast))
          (Some [Page ((data (Page_init sample_cast)) \<lparr> blocks := [[''title is empty'']] \<rparr>) None,
                 Page_init sample_cast,
                 Page ((data (Page_init sample_cast)) \<lparr> blocks := [[''src is empty'']] \<rparr>) None]))
     = Some [Page ((data (Page_init sample_cast)) \<lparr> blocks := [[''title is empty'']] \<rparr>) None,
             Page_init sample_cast,
             Page ((data (Page_init sample_cast)) \<lparr> blocks := [[''src is empty'']] \<rparr>) None]
   \<and> fst (Page_validate id
       (Page (data (Page_init sample_cast))
          (Some [Page ((data (Page_init sample_cast)) \<lparr> blocks := [[''title is empty'']] \<rparr>) None,
                 Page_init sample_cast,
                 Page ((data (Page_init sample_cast)) \<lparr> blocks := [[''src is empty'']] \<rparr>) None])))
     = []
   \<and> fst (Page_validate id
       (Page (data (Page_init sample_cast))
          (Some [Page ((data (Page_init sample_cast)) \<lparr> blocks := [[''title is empty'']] \<rparr>) None,
                 Page_init sample_cast,
                 Page ((data (Page_init sample_cast)) \<lparr> blocks := [[''src is empty'']] \<rparr>) None])))
     \<noteq> [''title is empty''] @ [''src is empty'']"
  by (simp add: Page_validate_def Page_init_def)

lemma Page_applyBlocks_idem:
  "Page_applyBlocks R bs0 i = (bs, r) \<Longrightarrow> Page_applyBlocks R bs i = (bs, r)"
  by (auto simp: Page_applyBlocks_def split: if_splits sum.splits)

lemma Page_applyScalars_blocks [simp]:
  "Page_applyScalars c (f \<lparr> blocks := bs \<rparr>) i = (Page_applyScalars c f i) \<lparr> blocks := bs \<rparr>"
  by (simp add: Page_applyScalars_def)

lemma blocks_Page_applyScalars [simp]: "blocks (Page_applyScalars c f i) = blocks f"
  by (simp add: Page_applyScalars_def)

lemma Page_applyScalars_idem [simp]:
  "Page_applyScalars c (Page_applyScalars c f i) i = Page_applyScalars c f i"
  by (simp add: Page_applyScalars_def)

lemma Page_applyScalars_Tail [simp]:
  "Page_applyScalars c (Page_applyTail c f i) i = Page_applyTail c (Page_applyScalars c f i) i"
  by (simp add: Page_applyScalars_def Page_applyTail_def)

lemma blocks_Page_applyTail [simp]: "blocks (Page_applyTail c f i) = blocks f"
  by (simp add: Page_applyTail_def)

lemma Page_applyTail_idem [simp]:
  "Page_applyTail c (Page_applyTail c f i) i = Page_applyTail c f i"
  by (simp add: Page_applyTail_def)

lemma Page_apply_idem:
  "Page_apply c R (fst (Page_apply c R this i)) i = Page_apply c R this i"
proof (cases "truthy i")
  case False
  then show ?thesis
    by (simp add: Page_apply.simps)
next
  case True
  define f1 where "f1 = Page_applyScalars c (data this) i"
  obtain bs r where B: "Page_applyBlocks R (blocks f1) i = (bs, r)"
    by (cases "Page_applyBlocks R (blocks f1) i") auto
  then have B': "Page_applyBlocks R bs i = (bs, r)"
    by (rule Page_applyBlocks_idem)
  have sc: "Page_applyScalars c f1 i = f1"
    by (simp add: f1_def)
  show ?thesis
  proof (cases r)
    case (Some e)
    with True B have 1: "Page_apply c R this i = (Page (f1 \<lparr> blocks := bs \<rparr>) (children this), Some e)"
      by (simp add: Page_apply.simps [of c R this i] f1_def)
    from True B' Some sc
    have "Page_apply c R (Page (f1 \<lparr> blocks := bs \<rparr>) (children this)) i
            = (Page (f1 \<lparr> blocks := bs \<rparr>) (children this), Some e)"
      by (simp add: Page_apply.simps [of c R "Page (f1 \<lparr> blocks := bs \<rparr>) (children this)" i])
    with 1 show ?thesis
      by simp
  next
    case None
    let ?f2 = "f1 \<lparr> blocks := bs \<rparr>"
    let ?K = "Page_children c R (elements (js_prop i ''children''))"
    have step: "Page_apply c R (Page g ch) i =
        (if truthy (js_prop i ''children'') then
           (if AreObjectsOf (js_prop i ''children'') ''pageID''
            then (case ?K of
                    Inl e \<Rightarrow> (Page G (Some []), Some e)
                  | Inr ps \<Rightarrow> (Page (Page_applyTail c G i) (Some ps), None))
            else (Page (Page_applyTail c G i) (Some []), None))
         else (Page (Page_applyTail c G i) ch, None))"
      if "(Page_applyScalars c g i) \<lparr> blocks := bs \<rparr> = G"
        and "Page_applyBlocks R (blocks g) i = (bs, None)" for g ch G
      using that True by (auto simp: Page_apply.simps [of c R "Page g ch" i])
    have b1: "Page_applyBlocks R (blocks (data this)) i = (bs, None)"
      using B None by (simp add: f1_def)
    have u1: "(Page_applyScalars c (data this) i) \<lparr> blocks := bs \<rparr> = ?f2"
      by (simp add: f1_def)
    have first: "Page_apply c R this i =
        (if truthy (js_prop i ''children'') then
           (if AreObjectsOf (js_prop i ''children'') ''pageID''
            then (case ?K of
                    Inl e \<Rightarrow> (Page ?f2 (Some []), Some e)
                  | Inr ps \<Rightarrow> (Page (Page_applyTail c ?f2 i) (Some ps), None))
            else (Page (Page_applyTail c ?f2 i) (Some []), None))
         else (Page (Page_applyTail c ?f2 i) (children this), None))"
      using step [OF u1 b1, of "children this"] by simp
    have b2: "Page_applyBlocks R (blocks ?f2) i = (bs, None)"
      using B' None by simp
    have u2: "(Page_applyScalars c ?f2 i) \<lparr> blocks := bs \<rparr> = ?f2"
      by (simp add: sc)
    have b3: "Page_applyBlocks R (blocks (Page_applyTail c ?f2 i)) i = (bs, None)"
      using B' None by simp
    have u3: "(Page_applyScalars c (Page_applyTail c ?f2 i) i) \<lparr> blocks := bs \<rparr>
                = Page_applyTail c ?f2 i"
      by (simp add: sc)
    show ?thesis
      unfolding first
      by (auto simp: step [OF u2 b2] step [OF u3 b3] split: sum.splits)
  qed
qed

lemma Namespace_apply_idem:
  "Namespace_apply c (Namespace_apply c this n) n = Namespace_apply c this n"
proof (cases "truthy n")
  case False
  then show ?thesis by (simp add: Namespace_apply_def)
next
  case True
  then show ?thesis by (simp add: Namespace_apply_def)
qed

text \<open>\<open>ModuleField_apply\<close> on a truthy source, as one update of the fields.\<close>

lemma ModuleField_apply_truthy:
  assumes "truthy f"
  shows "ModuleField_apply c this f =
     this \<lparr> fieldID := Apply (fieldID this) f (\<lambda>v _. CortezaID c v) ''fieldID'',
            name := Apply (name this) f (\<lambda>v _. String c v) ''name'',
            label := Apply (label this) f (\<lambda>v _. String c v) ''label'',
            kind := (if IsOf f ''kind'' then js_prop f ''kind''
                     else Apply (kind this) f (\<lambda>v _. JStr (String c v)) ''kind''),
            maxLength := Apply (maxLength this) f (\<lambda>v _. Number c v) ''maxLength'',
            isRequired := Apply (isRequired this) f (\<lambda>v _. Boolean v) ''isRequired'',
            isPrivate := Apply (isPrivate this) f (\<lambda>v _. Boolean v) ''isPrivate'',
            isMulti := Apply (isMulti this) f (\<lambda>v _. Boolean v) ''isMulti'',
            isSystem := Apply (isSystem this) f (\<lambda>v _. Boolean v) ''isSystem'',
            defaultValue := (if truthy (js_prop f ''defaultValue'') then js_prop f ''defaultValue''
                             else defaultValue this),
            canUpdateRecordValue :=
              (if Apply (isSystem this) f (\<lambda>v _. Boolean v) ''isSystem'' then True
               else Apply (canUpdateRecordValue this) f (\<lambda>v _. Boolean v) ''canUpdateRecordValue''),
            canReadRecordValue :=
              (if Apply (isSystem this) f (\<lambda>v _. Boolean v) ''isSystem'' then True
               else Apply (canReadRecordValue this) f (\<lambda>v _. Boolean v) ''canReadRecordValue''),
            options := (if IsOf f ''options'' then js_prop f ''options'' else options this) \<rparr>"
  using assms unfolding ModuleField_apply_def Let_def
  by simp

lemma ModuleField_apply_idem:
  "ModuleField_apply c (ModuleField_apply c this f) f = ModuleField_apply c this f"
proof (cases "truthy f")
  case False
  then show ?thesis by (simp add: ModuleField_apply_def)
next
  case True
  show ?thesis
  proof (cases "Apply (isSystem this) f (\<lambda>v _. Boolean v) ''isSystem''")
    case sys: True
    then have "Apply True f (\<lambda>v _. Boolean v) ''isSystem''"
      by (simp add: Apply_def split: if_splits)
    with sys \<open>truthy f\<close> show ?thesis
      by (simp add: ModuleField_apply_truthy)
  next
    case sys: False
    then have "\<not> Apply False f (\<lambda>v _. Boolean v) ''isSystem''"
      by (simp add: Apply_def split: if_splits)
    with sys \<open>truthy f\<close> show ?thesis
      by (simp add: ModuleField_apply_truthy)
  qed
qed

text \<open>
  Claim C9 (idempotence). Applying the same raw value twice leaves the entity as
  applying it once does, for \<open>Page\<close> (the page and the exception, if any, are the same),
  \<open>Namespace\<close> and \<open>ModuleField\<close>, whatever the coercers and the registry are.
\<close>

theorem apply_idempotent:
  "Page_apply c R (fst (Page_apply c R p r)) r = Page_apply c R p r
   \<and> Namespace_apply c (Namespace_apply c n r) r = Namespace_apply c n r
   \<and> ModuleField_apply c (ModuleField_apply c m r) r = ModuleField_apply c m r"
  by (intro conjI Page_apply_idem Namespace_apply_idem ModuleField_apply_idem)

theorem apply_idempotent_witness:
  "Page_apply sample_cast sample_registry
      (fst (Page_apply sample_cast sample_registry (Page_init sample_cast)
              (JObj [(''title'', JStr ''Home''), (''isSystem'', JBool True)])))
      (JObj [(''title'', JStr ''Home''), (''isSystem'', JBool True)])
     = Page_apply sample_cast sample_registry (Page_init sample_cast)
         (JObj [(''title'', JStr ''Home''), (''isSystem'', JBool True)])
   \<and> Namespace_apply sample_cast
        (Namespace_apply sample_cast (Namespace_init sample_cast)
           (JObj [(''title'', JStr ''Home''), (''isSystem'', JBool True)]))
        (JObj [(''title'', JStr ''Home''), (''isSystem'', JBool True)])
     = Namespace_apply sample_cast (Namespace_init sample_cast)
         (JObj [(''title'', JStr ''Home''), (''isSystem'', JBool True)])
   \<and> ModuleField_apply sample_cast
        (ModuleField_apply sample_cast (ModuleField_init sample_cast)
           (JObj [(''title'', JStr ''Home''), (''isSystem'', JBool True)]))
        (JObj [(''title'', JStr ''Home''), (''isSystem'', JBool True)])
     = ModuleField_apply sample_cast (ModuleField_init sample_cast)
         (JObj [(''title'', JStr ''Home''), (''isSystem'', JBool True)])"
  by (rule apply_idempotent)

lemma Page_apply_result:
  assumes "truthy i"
  shows "\<exists>bs. bs = fst (Page_applyBlocks R (blocks (data this)) i)
           \<and> (data (fst (Page_apply c R this i)) = (Page_applyScalars c (data this) i) \<lparr> blocks := bs \<rparr>
              \<or> data (fst (Page_apply c R this i))
                  = Page_applyTail c ((Page_applyScalars c (data this) i) \<lparr> blocks := bs \<rparr>) i)"
  using assms
  by (auto simp: Page_apply.simps [of c R this i] Let_def split: prod.splits option.splits sum.splits)

lemma Page_apply_children_absent:
  "\<not> truthy (js_prop i ''children'') \<Longrightarrow> children (fst (Page_apply c R this i)) = children this"
  by (auto simp: Page_apply.simps [of c R this i] Let_def split: prod.splits option.splits sum.splits)

lemma Page_applyBlocks_absent:
  "\<not> truthy (js_prop i ''blocks'') \<Longrightarrow> Page_applyBlocks R bs i = (bs, None)"
  by (simp add: Page_applyBlocks_def)

lemma Page_apply_falsy: "\<not> truthy i \<Longrightarrow> Page_apply c R this i = (this, None)"
  by (simp add: Page_apply.simps)

text \<open>
  Claim C4 (partial update), as amended. A field for which the raw value has no defined
  property is left as it was by \<open>Page.apply\<close> and \<open>Namespace.apply\<close>, and by
  \<open>ModuleField.apply\<close> for every field but \<open>canUpdateRecordValue\<close> and
  \<open>canReadRecordValue\<close>. Those two are set to true by an \<open>apply\<close> of a truthy value
  whenever \<open>isSystem\<close> is true after the update, whether the raw value carries them or
  not; when \<open>isSystem\<close> is false after the update they too are left as they were if
  absent.
\<close>

theorem apply_keeps_absent_fields:
  assumes "p' = fst (Page_apply c R p r)"
    and "n' = Namespace_apply c n r"
    and "m' = ModuleField_apply c m r"
  shows
   "((js_prop r ''pageID'' = Undefined \<longrightarrow> pageID (data p') = pageID (data p))
     \<and> (js_prop r ''selfID'' = Undefined \<longrightarrow> selfID (data p') = selfID (data p))
     \<and> (js_prop r ''moduleID'' = Undefined \<longrightarrow> moduleID (data p') = moduleID (data p))
     \<and> (js_prop r ''namespaceID'' = Undefined
          \<longrightarrow> PageFields.namespaceID (data p') = PageFields.namespaceID (data p))
     \<and> (js_prop r ''title'' = Undefined \<longrightarrow> title (data p') = title (data p))
     \<and> (js_prop r ''handle'' = Undefined \<longrightarrow> handle (data p') = handle (data p))
     \<and> (js_prop r ''description'' = Undefined \<longrightarrow> description (data p') = description (data p))
     \<and> (js_prop r ''weight'' = Undefined \<longrightarrow> weight (data p') = weight (data p))
     \<and> (js_prop r ''visible'' = Undefined \<longrightarrow> visible (data p') = visible (data p))
     \<and> (js_prop r ''blocks'' = Undefined \<longrightarrow> blocks (data p') = blocks (data p))
     \<and> (js_prop r ''children'' = Undefined \<longrightarrow> children p' = children p)
     \<and> (js_prop r ''createdAt'' = Undefined
          \<longrightarrow> PageFields.createdAt (data p') = PageFields.createdAt (data p))
     \<and> (js_prop r ''updatedAt'' = Undefined
          \<longrightarrow> PageFields.updatedAt (data p') = PageFields.updatedAt (data p))
     \<and> (js_prop r ''deletedAt'' = Undefined
          \<longrightarrow> PageFields.deletedAt (data p') = PageFields.deletedAt (data p))
     \<and> (js_prop r ''canUpdatePage'' = Undefined \<longrightarrow> canUpdatePage (data p') = canUpdatePage (data p))
     \<and> (js_prop r ''canDeletePage'' = Undefined \<longrightarrow> canDeletePage (data p') = canDeletePage (data p))
     \<and> (js_prop r ''canGrant'' = Undefined
          \<longrightarrow> PageFields.canGrant (data p') = PageFields.canGrant (data p)))
    \<and> ((js_prop r ''namespaceID'' = Undefined \<longrightarrow> namespaceID n' = namespaceID n)
     \<and> (js_prop r ''name'' = Undefined \<longrightarrow> Namespace.name n' = Namespace.name n)
     \<and> (js_prop r ''slug'' = Undefined \<longrightarrow> slug n' = slug n)
     \<and> (js_prop r ''enabled'' = Undefined \<longrightarrow> enabled n' = enabled n)
     \<and> (js_prop r ''meta'' = Undefined \<longrightarrow> meta n' = meta n)
     \<and> (js_prop r ''createdAt'' = Undefined \<longrightarrow> createdAt n' = createdAt n)
     \<and> (js_prop r ''updatedAt'' = Undefined \<longrightarrow> updatedAt n' = updatedAt n)
     \<and> (js_prop r ''deletedAt'' = Undefined \<longrightarrow> deletedAt n' = deletedAt n)
     \<and> (js_prop r ''canCreateChart'' = Undefined \<longrightarrow> canCreateChart n' = canCreateChart n)
     \<and> (js_prop r ''canCreateModule'' = Undefined \<longrightarrow> canCreateModule n' = canCreateModule n)
     \<and> (js_prop r ''canCreatePage'' = Undefined \<longrightarrow> canCreatePage n' = canCreatePage n)
     \<and> (js_prop r ''canDeleteNamespace'' = Undefined
          \<longrightarrow> canDeleteNamespace n' = canDeleteNamespace n)
     \<and> (js_prop r ''canUpdateNamespace'' = Undefined
          \<longrightarrow> canUpdateNamespace n' = canUpdateNamespace n)
     \<and> (js_prop r ''canManageNamespace'' = Undefined
          \<longrightarrow> canManageNamespace n' = canManageNamespace n)
     \<and> (js_prop r ''canGrant'' = Undefined \<longrightarrow> canGrant n' = canGrant n))
    \<and> ((js_prop r ''fieldID'' = Undefined \<longrightarrow> fieldID m' = fieldID m)
     \<and> (js_prop r ''name'' = Undefined \<longrightarrow> name m' = name m)
     \<and> (js_prop r ''kind'' = Undefined \<longrightarrow> kind m' = kind m)
     \<and> (js_prop r ''label'' = Undefined \<longrightarrow> label m' = label m)
     \<and> (js_prop r ''defaultValue'' = Undefined \<longrightarrow> defaultValue m' = defaultValue m)
     \<and> (js_prop r ''maxLength'' = Undefined \<longrightarrow> maxLength m' = maxLength m)
     \<and> (js_prop r ''isRequired'' = Undefined \<longrightarrow> isRequired m' = isRequired m)
     \<and> (js_prop r ''isPrivate'' = Undefined \<longrightarrow> isPrivate m' = isPrivate m)
     \<and> (js_prop r ''isMulti'' = Undefined \<longrightarrow> isMulti m' = isMulti m)
     \<and> (js_prop r ''isSystem'' = Undefined \<longrightarrow> isSystem m' = isSystem m)
     \<and> (js_prop r ''options'' = Undefined \<longrightarrow> options m' = options m)
     \<and> (truthy r \<and> isSystem m' \<longrightarrow> canUpdateRecordValue m' \<and> canReadRecordValue m')
     \<and> (\<not> isSystem m' \<and> js_prop r ''canUpdateRecordValue'' = Undefined
          \<longrightarrow> canUpdateRecordValue m' = canUpdateRecordValue m)
     \<and> (\<not> isSystem m' \<and> js_prop r ''canReadRecordValue'' = Undefined
          \<longrightarrow> canReadRecordValue m' = canReadRecordValue m))"
  (is "?P \<and> ?N \<and> ?M")
proof -
  have P: ?P
  proof (cases "truthy r")
    case False
    then show ?thesis
      by (simp add: assms(1) Page_apply_falsy)
  next
    case True
    from Page_apply_result [OF True, of R p c]
    have d: "data p' = (Page_applyScalars c (data p) r)
                 \<lparr> blocks := fst (Page_applyBlocks R (blocks (data p)) r) \<rparr>
           \<or> data p' = Page_applyTail c ((Page_applyScalars c (data p) r)
                 \<lparr> blocks := fst (Page_applyBlocks R (blocks (data p)) r) \<rparr>) r"
      by (simp add: assms(1))
    have ch: "js_prop r ''children'' = Undefined \<longrightarrow> children p' = children p"
      by (simp add: assms(1) Page_apply_children_absent)
    from d show ?thesis
    proof
      assume "data p' = (Page_applyScalars c (data p) r)
                 \<lparr> blocks := fst (Page_applyBlocks R (blocks (data p)) r) \<rparr>"
      with ch show ?thesis
        by (simp add: Page_applyScalars_def Page_applyBlocks_absent)
    next
      assume "data p' = Page_applyTail c ((Page_applyScalars c (data p) r)
                 \<lparr> blocks := fst (Page_applyBlocks R (blocks (data p)) r) \<rparr>) r"
      with ch show ?thesis
        by (simp add: Page_applyScalars_def Page_applyTail_def Page_applyBlocks_absent)
    qed
  qed
  have N: ?N
  proof (cases "truthy r")
    case False
    then show ?thesis
      by (simp add: assms(2) Namespace_apply_def)
  next
    case True
    then show ?thesis
      by (simp add: assms(2) Namespace_apply_def IsOf_def)
  qed
  have M: ?M
  proof (cases "truthy r")
    case False
    then show ?thesis
      by (simp add: assms(3) ModuleField_apply_def)
  next
    case True
    then show ?thesis
      by (simp add: assms(3) ModuleField_apply_truthy IsOf_def)
  qed
  show ?thesis
    by (rule conjI [OF P conjI [OF N M]])
qed

theorem apply_keeps_absent_fields_witness:
  "js_prop (JObj [(''title'', JStr ''Home''), (''name'', JStr ''crm'')]) ''handle'' = Undefined
   \<and> handle (data (fst (Page_apply sample_cast sample_registry
         (Page ((data (Page_init sample_cast)) \<lparr> handle := ''home'' \<rparr>) None)
         (JObj [(''title'', JStr ''Home''), (''name'', JStr ''crm'')])))) = ''home''
   \<and> title (data (fst (Page_apply sample_cast sample_registry
         (Page ((data (Page_init sample_cast)) \<lparr> handle := ''home'' \<rparr>) None)
         (JObj [(''title'', JStr ''Home''), (''name'', JStr ''crm'')])))) = ''Home''
   \<and> slug (Namespace_apply sample_cast ((Namespace_init sample_cast) \<lparr> slug := ''crm-slug'' \<rparr>)
         (JObj [(''title'', JStr ''Home''), (''name'', JStr ''crm'')])) = ''crm-slug''
   \<and> label (ModuleField_apply sample_cast ((ModuleField_init sample_cast) \<lparr> label := ''Name'' \<rparr>)
         (JObj [(''title'', JStr ''Home''), (''name'', JStr ''crm'')])) = ''Name''
   \<and> name (ModuleField_apply sample_cast ((ModuleField_init sample_cast) \<lparr> label := ''Name'' \<rparr>)
         (JObj [(''title'', JStr ''Home''), (''name'', JStr ''crm'')])) = ''crm''"
proof -
  let ?r = "JObj [(''title'', JStr ''Home''), (''name'', JStr ''crm'')]"
  let ?p = "Page ((data (Page_init sample_cast)) \<lparr> handle := ''home'' \<rparr>) None :: jsval Page"
  let ?n = "(Namespace_init sample_cast) \<lparr> slug := ''crm-slug'' \<rparr>"
  let ?m = "(ModuleField_init sample_cast) \<lparr> label := ''Name'' \<rparr>"
  note t = apply_keeps_absent_fields [OF refl refl refl, of ?r sample_cast sample_registry ?p ?n ?m]
  have a: "js_prop ?r ''handle'' = Undefined" "js_prop ?r ''slug'' = Undefined"
    "js_prop ?r ''label'' = Undefined"
    by simp_all
  have h: "handle (data (fst (Page_apply sample_cast sample_registry ?p ?r))) = ''home''"
    using t a by simp
  have s: "slug (Namespace_apply sample_cast ?n ?r) = ''crm-slug''"
    using t a by simp
  have l: "label (ModuleField_apply sample_cast ?m ?r) = ''Name''"
    using t a by simp
  have ti: "title (data (fst (Page_apply sample_cast sample_registry ?p ?r))) = ''Home''"
    by (simp add: Page_apply.simps Page_applyScalars_def Page_applyBlocks_def
        Page_applyTail_def Apply_def sample_cast_def sample_String_def Page_init_def)
  have nm: "name (ModuleField_apply sample_cast ?m ?r) = ''crm''"
    by (simp add: ModuleField_apply_truthy Apply_def sample_cast_def sample_String_def)
  from a h s l ti nm show ?thesis
    by simp
qed

text \<open>
  The claim as stated fails for \<open>ModuleField\<close>: applying \<open>{ isSystem: true }\<close> to a new
  field sets \<open>canUpdateRecordValue\<close> and \<open>canReadRecordValue\<close>, which the raw object
  does not carry.
\<close>

theorem ModuleField_apply_changes_absent_field:
  "js_prop (JObj [(''isSystem'', JBool True)]) ''canUpdateRecordValue'' = Undefined
   \<and> js_prop (JObj [(''isSystem'', JBool True)]) ''canReadRecordValue'' = Undefined
   \<and> \<not> canUpdateRecordValue (ModuleField_init sample_cast)
   \<and> \<not> canReadRecordValue (ModuleField_init sample_cast)
   \<and> canUpdateRecordValue
        (ModuleField_apply sample_cast (ModuleField_init sample_cast) (JObj [(''isSystem'', JBool True)]))
   \<and> canReadRecordValue
        (ModuleField_apply sample_cast (ModuleField_init sample_cast) (JObj [(''isSystem'', JBool True)]))"
  by (simp add: ModuleField_apply_truthy ModuleField_init_def Apply_def Boolean_def)

subsection \<open>The guards of \<open>Page.apply\<close>\<close>

text \<open>
  The raw object \<open>{ blocks: [{kind:'X', xywh:[0,0,1,1]}, {no-kind-field:true}] }\<close>.
\<close>

definition guard_example :: jsval where
  "guard_example =
     JObj [(''blocks'',
            JArr [JObj [(''kind'', JStr ''X''),
                        (''xywh'', JArr [JNum (Num 0), JNum (Num 0), JNum (Num 1), JNum (Num 1)])],
                  JObj [(''no-kind-field'', JBool True)]])]"

lemma Page_applyScalars_none:
  "js_prop i ''pageID'' = Undefined \<Longrightarrow> js_prop i ''selfID'' = Undefined
   \<Longrightarrow> js_prop i ''moduleID'' = Undefined \<Longrightarrow> js_prop i ''namespaceID'' = Undefined
   \<Longrightarrow> js_prop i ''title'' = Undefined \<Longrightarrow> js_prop i ''handle'' = Undefined
   \<Longrightarrow> js_prop i ''description'' = Undefined \<Longrightarrow> js_prop i ''weight'' = Undefined
   \<Longrightarrow> js_prop i ''visible'' = Undefined \<Longrightarrow> Page_applyScalars c f i = f"
  by (simp add: Page_applyScalars_def)

lemma Page_applyTail_none:
  "js_prop i ''createdAt'' = Undefined \<Longrightarrow> js_prop i ''updatedAt'' = Undefined
   \<Longrightarrow> js_prop i ''deletedAt'' = Undefined \<Longrightarrow> js_prop i ''canUpdatePage'' = Undefined
   \<Longrightarrow> js_prop i ''canDeletePage'' = Undefined \<Longrightarrow> js_prop i ''canGrant'' = Undefined
   \<Longrightarrow> Page_applyTail c f i = f"
  by (simp add: Page_applyTail_def)

lemma guard_example_blocks:
  "Page_applyBlocks R bs guard_example = ([], None)"
  by (simp add: Page_applyBlocks_def guard_example_def AreObjectsOf_def IsOf_def)

lemma newPage_guard_example: "newPage c R guard_example = Inr (Page_init c)"
proof -
  have s: "Page_applyScalars c f guard_example = f" for f :: "'a PageFields"
    by (rule Page_applyScalars_none) (simp_all add: guard_example_def)
  have t: "Page_applyTail c f guard_example = f" for f :: "'a PageFields"
    by (rule Page_applyTail_none) (simp_all add: guard_example_def)
  have tr: "truthy guard_example" and ch: "\<not> truthy (js_prop guard_example ''children'')"
    by (simp_all add: guard_example_def)
  have b: "blocks (data (Page_init c :: 'a Page)) = []"
    by (simp add: Page_init_def)
  have "Page_apply c R (Page_init c) guard_example = (Page_init c, None)"
    using tr ch b
    by (simp add: Page_apply.simps [of c R "Page_init c" guard_example] s t guard_example_blocks)
       (simp add: Page_init_def)
  then show ?thesis
    by (simp add: newPage_def)
qed

text \<open>
  Claim C2 (the end-to-end example), as amended. With \<open>X\<close> registered, hydrating a page
  from the raw object yields a page whose blocks collection is empty: the second element
  has no \<open>kind\<close>, so the guard rejects the whole array and no block is constructed. The
  page is the one the field initialisers give, and no error is raised.
\<close>

theorem newPage_guard_example_empty:
  assumes "R ''X'' = Some ctor"
  shows "newPage c R guard_example = Inr (Page_init c)
         \<and> blocks (data (Page_init c :: 'b Page)) = []"
  by (simp add: newPage_guard_example Page_init_def)

theorem newPage_guard_example_empty_witness:
  "Registry_set Map.empty ''X'' (\<lambda>i. [i]) ''X'' \<noteq> None
   \<and> newPage sample_cast (Registry_set Map.empty ''X'' (\<lambda>i. [i])) guard_example
       = Inr (Page_init sample_cast)
   \<and> blocks (data (Page_init sample_cast :: jsval list Page)) = []"
proof -
  have x: "Registry_set Map.empty ''X'' (\<lambda>i. [i :: jsval]) ''X'' = Some (\<lambda>i. [i])"
    by (simp add: Registry_set_def)
  from newPage_guard_example_empty
         [where R = "Registry_set Map.empty ''X'' (\<lambda>i. [i :: jsval])" and ctor = "\<lambda>i. [i]"
            and c = sample_cast, OF x] x
  show ?thesis
    by simp
qed

text \<open>
  The claim as stated fails: with \<open>X\<close> registered, the hydrated page has no block, not
  one.
\<close>

theorem newPage_guard_example_not_one_block:
  "sample_registry ''X'' \<noteq> None
   \<and> newPage sample_cast sample_registry guard_example = Inr (Page_init sample_cast)
   \<and> length (blocks (data (Page_init sample_cast :: jsval Page))) \<noteq> 1"
  by (simp add: newPage_guard_example sample_registry_def Registry_set_def Page_init_def)

lemma AreObjectsOf_JArr: "AreObjectsOf (JArr xs) k = list_all (\<lambda>x. IsOf x k) xs"
  by (simp add: AreObjectsOf_def)

lemma list_all_conj: "list_all (\<lambda>x. P x \<and> Q x) xs = (list_all P xs \<and> list_all Q xs)"
  by (induction xs) auto

lemma Page_applyBlocks_guard:
  assumes "js_prop i ''blocks'' = JArr xs"
    and "\<not> list_all (\<lambda>x. IsOf x ''kind'' \<and> IsOf x ''xywh'') xs"
  shows "Page_applyBlocks R bs i = ([], None)"
  using assms by (auto simp: Page_applyBlocks_def AreObjectsOf_JArr list_all_conj)

lemma has_prop_truthy: "js_prop i k = JArr xs \<Longrightarrow> truthy i"
  by (cases i) simp_all

text \<open>
  Claim C3 (guard drop), as amended. When the source carries a \<open>blocks\<close> array in which
  some element lacks \<open>kind\<close> or \<open>xywh\<close>, the blocks of the page become the empty list,
  never a part of the array, and hydrating the blocks raises no error; \<open>apply\<close> as a whole
  raises none when no sub-page is constructed. When the source carries a \<open>children\<close> array
  in which some element lacks \<open>pageID\<close>, and hydrating the blocks of the same source
  raised no error, the children of the page become the empty list and \<open>apply\<close> raises no
  error.
\<close>

theorem Page_apply_guard_drop:
  "(js_prop i ''blocks'' = JArr xs \<and> \<not> list_all (\<lambda>x. IsOf x ''kind'' \<and> IsOf x ''xywh'') xs
      \<longrightarrow> blocks (data (fst (Page_apply c R this i))) = []
          \<and> Page_applyBlocks R (blocks (data this)) i = ([], None)
          \<and> (\<not> (truthy (js_prop i ''children'') \<and> AreObjectsOf (js_prop i ''children'') ''pageID'')
              \<longrightarrow> snd (Page_apply c R this i) = None))
   \<and> (js_prop i ''children'' = JArr ys \<and> \<not> list_all (\<lambda>y. IsOf y ''pageID'') ys
       \<and> snd (Page_applyBlocks R (blocks (data this)) i) = None
      \<longrightarrow> children (fst (Page_apply c R this i)) = Some []
          \<and> snd (Page_apply c R this i) = None)"
proof (intro conjI impI; (elim conjE)?)
  assume b: "js_prop i ''blocks'' = JArr xs"
    and g: "\<not> list_all (\<lambda>x. IsOf x ''kind'' \<and> IsOf x ''xywh'') xs"
  have t: "truthy i"
    using b by (rule has_prop_truthy)
  have B: "Page_applyBlocks R bs i = ([], None)" for bs
    using b g by (rule Page_applyBlocks_guard)
  show "blocks (data (fst (Page_apply c R this i))) = []"
    using t
    by (auto simp: Page_apply.simps [of c R this i] B Let_def split: sum.splits)
  show "Page_applyBlocks R (blocks (data this)) i = ([], None)"
    by (rule B)
  show "snd (Page_apply c R this i) = None"
    if "\<not> (truthy (js_prop i ''children'') \<and> AreObjectsOf (js_prop i ''children'') ''pageID'')"
    using t that
    by (auto simp: Page_apply.simps [of c R this i] B Let_def)
next
  assume k: "js_prop i ''children'' = JArr ys"
    and g: "\<not> list_all (\<lambda>y. IsOf y ''pageID'') ys"
    and e: "snd (Page_applyBlocks R (blocks (data this)) i) = None"
  have t: "truthy i"
    using k by (rule has_prop_truthy)
  obtain bs where B: "Page_applyBlocks R (blocks (data this)) i = (bs, None)"
    using e by (cases "Page_applyBlocks R (blocks (data this)) i") auto
  have r: "Page_apply c R this i
     = (Page (Page_applyTail c ((Page_applyScalars c (data this) i) \<lparr> blocks := bs \<rparr>) i) (Some []),
        None)"
    using t k g B
    by (simp add: Page_apply.simps [of c R this i] AreObjectsOf_JArr)
  show "children (fst (Page_apply c R this i)) = Some []"
    by (simp add: r)
  show "snd (Page_apply c R this i) = None"
    by (simp add: r)
qed

theorem Page_apply_guard_drop_witness:
  "js_prop (JObj [(''blocks'', JArr [JObj [(''kind'', JStr ''X'')]]), (''children'', JArr [JObj []])])
      ''blocks'' = JArr [JObj [(''kind'', JStr ''X'')]]
   \<and> \<not> list_all (\<lambda>x. IsOf x ''kind'' \<and> IsOf x ''xywh'') [JObj [(''kind'', JStr ''X'')]]
   \<and> js_prop (JObj [(''blocks'', JArr [JObj [(''kind'', JStr ''X'')]]), (''children'', JArr [JObj []])])
      ''children'' = JArr [JObj []]
   \<and> \<not> list_all (\<lambda>y. IsOf y ''pageID'') [JObj []]
   \<and> blocks (data (fst (Page_apply sample_cast sample_registry
        (Page ((data (Page_init sample_cast)) \<lparr> blocks := [JStr ''old block''] \<rparr>) None)
        (JObj [(''blocks'', JArr [JObj [(''kind'', JStr ''X'')]]), (''children'', JArr [JObj []])]))))
      = []
   \<and> children (fst (Page_apply sample_cast sample_registry
        (Page ((data (Page_init sample_cast)) \<lparr> blocks := [JStr ''old block''] \<rparr>) None)
        (JObj [(''blocks'', JArr [JObj [(''kind'', JStr ''X'')]]), (''children'', JArr [JObj []])])))
      = Some []
   \<and> snd (Page_apply sample_cast sample_registry
        (Page ((data (Page_init sample_cast)) \<lparr> blocks := [JStr ''old block''] \<rparr>) None)
        (JObj [(''blocks'', JArr [JObj [(''kind'', JStr ''X'')]]), (''children'', JArr [JObj []])]))
      = None"
proof -
  let ?i = "JObj [(''blocks'', JArr [JObj [(''kind'', JStr ''X'')]]), (''children'', JArr [JObj []])]"
  let ?p = "Page ((data (Page_init sample_cast)) \<lparr> blocks := [JStr ''old block''] \<rparr>) None"
  have b: "js_prop ?i ''blocks'' = JArr [JObj [(''kind'', JStr ''X'')]]"
    by simp
  have gb: "\<not> list_all (\<lambda>x. IsOf x ''kind'' \<and> IsOf x ''xywh'') [JObj [(''kind'', JStr ''X'')]]"
    by (simp add: IsOf_def)
  have k: "js_prop ?i ''children'' = JArr [JObj []]"
    by simp
  have gk: "\<not> list_all (\<lambda>y. IsOf y ''pageID'') [JObj []]"
    by (simp add: IsOf_def)
  note t = Page_apply_guard_drop [of ?i "[JObj [(''kind'', JStr ''X'')]]" sample_cast
      sample_registry ?p "[JObj []]"]
  from t b gb have 1: "blocks (data (fst (Page_apply sample_cast sample_registry ?p ?i))) = []"
    and 2: "Page_applyBlocks sample_registry (blocks (data ?p)) ?i = ([], None)"
    by blast+
  from 2 have "snd (Page_applyBlocks sample_registry (blocks (data ?p)) ?i) = None"
    by simp
  with t k gk have 3: "children (fst (Page_apply sample_cast sample_registry ?p ?i)) = Some []"
    and 4: "snd (Page_apply sample_cast sample_registry ?p ?i) = None"
    by blast+
  from b gb k gk 1 3 4 show ?thesis
    by (intro conjI)
qed

text \<open>
  The claim as stated fails for \<open>children\<close>: a block of an unregistered kind makes
  \<open>apply\<close> throw before the \<open>children\<close> array is examined. The page below has one
  sub-page; the source carries a \<open>children\<close> array whose element lacks \<open>pageID\<close>; the
  sub-page is still there after the call, and an error was raised.
\<close>

theorem Page_apply_guard_drop_fails:
  "js_prop (JObj [(''blocks'', JArr [JObj [(''kind'', JStr ''Y''), (''xywh'', JArr [])]]),
                  (''children'', JArr [JObj []])]) ''children'' = JArr [JObj []]
   \<and> \<not> AreObjectsOf (JArr [JObj []]) ''pageID''
   \<and> sample_registry ''Y'' = None
   \<and> Page_apply sample_cast sample_registry
        (Page (data (Page_init sample_cast)) (Some [Page_init sample_cast]))
        (JObj [(''blocks'', JArr [JObj [(''kind'', JStr ''Y''), (''xywh'', JArr [])]]),
               (''children'', JArr [JObj []])])
      = (Page (data (Page_init sample_cast)) (Some [Page_init sample_cast]), Some UnregisteredKind)"
  by (simp add: Page_apply.simps Page_applyScalars_def Page_applyBlocks_def AreObjectsOf_def
      IsOf_def PageBlockMaker_def sample_registry_def Registry_set_def Page_init_def)

end
